theory Spec2Isabelle
  imports Main
begin

section \<open>The concurrent allocator of src/heap/concurrent-allocator.cc\<close>

text \<open>
  The theory embeds the member functions of \<^verbatim>\<open>ConcurrentAllocator\<close> that
  \<^verbatim>\<open>src/heap/concurrent-allocator.cc\<close> defines: every function takes the state of the
  allocator, of its owning thread context and of the heap it talks to, and returns
  the new state next to its C++ result.

  Addresses and sizes are natural numbers: the Shared Space hands out ranges inside
  its pages, so \<^verbatim>\<open>top + size\<close> never wraps, and a size is never negative
  (a negative \<^verbatim>\<open>object_size\<close> is excluded by the callers' precondition).
  The members \<^verbatim>\<open>lab_\<close>, \<^verbatim>\<open>local_heap_\<close>, \<^verbatim>\<open>space_\<close> and \<^verbatim>\<open>allocation_failed_\<close> lose
  their trailing underscore, which a constant name cannot end with.
  \<^verbatim>\<open>StressConcurrentAllocatorTask\<close>, the test driver at the head of the file, only calls
  the allocator in a loop and is not embedded.
\<close>

subsection \<open>Data\<close>

type_synonym Address = nat

definition kNullAddress :: Address where
  "kNullAddress = 0"

datatype AllocationAlignment = kWordAligned | kDoubleAligned | kDoubleUnaligned

datatype AllocationOrigin = kGeneratedCode | kRuntime | kGC

datatype AllocationSpace = NEW_SPACE | OLD_SPACE

datatype AllocationResult = Success Address | Retry AllocationSpace

fun IsRetry :: "AllocationResult \<Rightarrow> bool" where
  "IsRetry (Retry sp) = True"
| "IsRetry (Success a) = False"

text \<open>The linear allocation buffer: the free range from \<open>lab_top\<close> up to \<open>lab_limit\<close>.\<close>

record LocalAllocationBuffer =
  lab_top :: Address
  lab_limit :: Address

text \<open>
  The constants of \<^verbatim>\<open>concurrent-allocator.h\<close> and of the heap that the file uses
  and does not define are parameters: the minimal and the maximal size of a LAB,
  the size from which an object is allocated outside the LAB, and the padding that
  brings an address to an alignment.
\<close>

record constants =
  kLabSize :: nat
  kMaxLabSize :: nat
  kLargeObjectThreshold :: nat
  GetFillToAlign :: "Address \<Rightarrow> AllocationAlignment \<Rightarrow> nat"

text \<open>
  The calls that leave the allocator, in the order in which they are made. The slice
  request carries its five arguments: thread context, minimal size, maximal size,
  alignment and origin. A \<^verbatim>\<open>DCHECK\<close> is recorded with the value of its condition: a
  debug build stops at \<open>E_DCHECK False\<close>, a release build does not look at it.
\<close>

datatype event =
    E_AllocationFailed bool
  | E_Park
  | E_Unpark
  | E_RequestAndWaitForCollection
  | E_Allocate nat AllocationAlignment AllocationOrigin
  | E_SlowGetLinearAllocationAreaBackground nat nat nat AllocationAlignment AllocationOrigin
  | E_CreateBlackAreaBackground Address Address
  | E_DestroyBlackAreaBackground Address Address
  | E_MarkBlackBackground Address nat
  | E_FromResult Address nat
  | E_CreateFiller Address nat
  | E_DCHECK bool
  | E_FatalProcessOutOfMemory string

text \<open>
  The state: the allocator's LAB and the identity of its thread context, the two
  flags of that context, the marker's black-allocation flag and the set of addresses
  whose mark bit is set, the filler objects written so far, the answers that the
  Shared Space will give to the coming slice requests (\<open>None\<close> for a request it
  cannot serve; once the list is used up every request fails), and the calls made
  so far, oldest first.
\<close>

record state =
  lab :: LocalAllocationBuffer
  local_heap :: nat
  allocation_failed :: bool
  parked :: bool
  black_allocation :: bool
  black :: "Address set"
  fillers :: "(Address \<times> nat) list"
  space :: "(Address \<times> nat) option list"
  trace :: "event list"

definition record_call :: "event \<Rightarrow> state \<Rightarrow> state" where
  "record_call e s = s\<lparr>trace := trace s @ [e]\<rparr>"

text \<open>The calls made between an earlier state and a later one.\<close>

definition new_events :: "state \<Rightarrow> state \<Rightarrow> event list" where
  "new_events s s' = drop (length (trace s)) (trace s')"

text \<open>How a call of \<^verbatim>\<open>PerformCollectionAndAllocateAgain\<close> ends: the process is
  terminated, or an address is returned.\<close>

datatype fatal = FatalProcessOutOfMemory string

subsection \<open>The collaborators the file calls\<close>

text \<open>
  Modelled from the spec: \<^verbatim>\<open>LocalAllocationBuffer::IsValid\<close> (src/heap/local-allocation-buffer.h
  is not among the sources). The spec calls a LAB valid when it is non-empty, that is
  not the null buffer, and \<open>top \<le> limit\<close>.
\<close>

definition IsValid :: "LocalAllocationBuffer \<Rightarrow> bool" where
  "IsValid b \<longleftrightarrow> lab_top b \<noteq> kNullAddress \<and> lab_top b \<le> lab_limit b"

text \<open>Modelled from the spec: the empty buffer, \<open>top = limit = null\<close>
  (\<^verbatim>\<open>LocalAllocationBuffer::InvalidBuffer\<close> is not among the sources).\<close>

definition InvalidBuffer :: LocalAllocationBuffer where
  "InvalidBuffer = \<lparr>lab_top = kNullAddress, lab_limit = kNullAddress\<rparr>"

text \<open>
  Modelled from the spec: \<^verbatim>\<open>LocalAllocationBuffer::FromResult\<close> (not among the sources)
  constructs a new LAB from the returned slice: it begins at the slice's address and
  has the slice's size.
\<close>

definition FromResult :: "Address \<Rightarrow> nat \<Rightarrow> state \<Rightarrow> LocalAllocationBuffer \<times> state" where
  "FromResult address size_in_bytes s =
     (\<lparr>lab_top = address, lab_limit = address + size_in_bytes\<rparr>,
      record_call (E_FromResult address size_in_bytes) s)"

text \<open>
  Modelled from the spec: \<^verbatim>\<open>LocalAllocationBuffer::TryMerge\<close> (not among the sources).
  When the free range of \<open>other\<close>, the previous LAB, ends where this LAB begins, the
  two become one LAB that begins where \<open>other\<close> began, and \<open>other\<close> is left empty.
  The result is the pair of this LAB and \<open>other\<close> after the call.
\<close>

definition TryMerge ::
  "LocalAllocationBuffer \<Rightarrow> LocalAllocationBuffer \<Rightarrow> bool \<times> LocalAllocationBuffer \<times> LocalAllocationBuffer" where
  "TryMerge this other =
     (if lab_top this = lab_limit other
      then (True, this\<lparr>lab_top := lab_top other\<rparr>, InvalidBuffer)
      else (False, this, other))"

text \<open>
  Modelled from the spec: \<^verbatim>\<open>LocalAllocationBuffer::MakeIterable\<close> (not among the
  sources). The unused tail of a buffer that is held is finalized into a filler
  object, so that a heap walker finds a well-formed object there.
\<close>

definition MakeIterable :: "LocalAllocationBuffer \<Rightarrow> state \<Rightarrow> state" where
  "MakeIterable b s =
     (if IsValid b
      then record_call (E_CreateFiller (lab_top b) (lab_limit b - lab_top b))
             (s\<lparr>fillers := fillers s @ [(lab_top b, lab_limit b - lab_top b)]\<rparr>)
      else s)"

text \<open>
  Modelled from the spec: \<^verbatim>\<open>LocalAllocationBuffer::CloseAndMakeIterable\<close> (not among
  the sources). A buffer that is held is made iterable and given up; the result is
  the buffer after the call, next to the state.
\<close>

definition CloseAndMakeIterable :: "LocalAllocationBuffer \<Rightarrow> state \<Rightarrow> LocalAllocationBuffer \<times> state" where
  "CloseAndMakeIterable b s =
     (if IsValid b then (InvalidBuffer, MakeIterable b s) else (b, s))"

text \<open>
  Modelled from the spec: \<^verbatim>\<open>LocalAllocationBuffer::AllocateRawAligned\<close> (not among the
  sources), the bump allocation inside the current LAB respecting alignment padding.
  Without room the result is \<open>Retry\<close> and nothing changes.
\<close>

definition AllocateRawAligned ::
  "constants \<Rightarrow> nat \<Rightarrow> AllocationAlignment \<Rightarrow> state \<Rightarrow> AllocationResult \<times> state" where
  "AllocateRawAligned K object_size alignment s =
     (let current_top = lab_top (lab s);
          filler_size = GetFillToAlign K current_top alignment;
          new_top = current_top + filler_size + object_size
      in if new_top > lab_limit (lab s) then (Retry OLD_SPACE, s)
         else (Success (current_top + filler_size), s\<lparr>lab := (lab s)\<lparr>lab_top := new_top\<rparr>\<rparr>))"

text \<open>
  Modelled from the spec: the slice provider of the Shared Space,
  \<^verbatim>\<open>PagedSpace::SlowGetLinearAllocationAreaBackground\<close> (src/heap/paged-spaces.cc is not
  among the sources). The space is outside the allocator: the request is recorded
  with its arguments and answered by the next answer of the space.
\<close>

definition SlowGetLinearAllocationAreaBackground ::
  "nat \<Rightarrow> nat \<Rightarrow> nat \<Rightarrow> AllocationAlignment \<Rightarrow> AllocationOrigin \<Rightarrow> state \<Rightarrow> (Address \<times> nat) option \<times> state" where
  "SlowGetLinearAllocationAreaBackground lh min_size max_size alignment origin s =
     (let s1 = record_call (E_SlowGetLinearAllocationAreaBackground lh min_size max_size alignment origin) s
      in case space s1 of
           [] \<Rightarrow> (None, s1)
         | r # rs \<Rightarrow> (r, s1\<lparr>space := rs\<rparr>))"

text \<open>
  Modelled from the spec: \<^verbatim>\<open>Page::CreateBlackAreaBackground\<close> (src/heap/spaces.cc is not
  among the sources), the begin of a black area: the mark bits of the range from
  \<open>start\<close> up to \<open>finish\<close> are set.
\<close>

definition CreateBlackAreaBackground :: "Address \<Rightarrow> Address \<Rightarrow> state \<Rightarrow> state" where
  "CreateBlackAreaBackground start finish s =
     record_call (E_CreateBlackAreaBackground start finish) (s\<lparr>black := black s \<union> {start..<finish}\<rparr>)"

text \<open>
  Modelled from the spec: \<^verbatim>\<open>Page::DestroyBlackAreaBackground\<close> (not among the sources),
  the end of a black area: the mark bits of the range are cleared.
\<close>

definition DestroyBlackAreaBackground :: "Address \<Rightarrow> Address \<Rightarrow> state \<Rightarrow> state" where
  "DestroyBlackAreaBackground start finish s =
     record_call (E_DestroyBlackAreaBackground start finish) (s\<lparr>black := black s - {start..<finish}\<rparr>)"

text \<open>
  Modelled from the spec: \<^verbatim>\<open>IncrementalMarking::MarkBlackBackground\<close>
  (src/heap/incremental-marking.cc is not among the sources) marks the range of
  \<open>object_size\<close> bytes at \<open>address\<close> black.
\<close>

definition MarkBlackBackground :: "Address \<Rightarrow> nat \<Rightarrow> state \<Rightarrow> state" where
  "MarkBlackBackground address object_size s =
     record_call (E_MarkBlackBackground address object_size)
       (s\<lparr>black := black s \<union> {address..<address + object_size}\<rparr>)"

text \<open>
  Modelled from the spec: the constructor of \<^verbatim>\<open>ParkedScope\<close> (src/heap/local-heap.h is
  not among the sources) marks the thread parked.
\<close>

definition Park :: "state \<Rightarrow> state" where
  "Park s = record_call E_Park (s\<lparr>parked := True\<rparr>)"

text \<open>
  Modelled from the spec: the destructor of \<^verbatim>\<open>ParkedScope\<close> (not among the sources)
  unmarks the thread.
\<close>

definition Unpark :: "state \<Rightarrow> state" where
  "Unpark s = record_call E_Unpark (s\<lparr>parked := False\<rparr>)"

text \<open>
  Modelled from the spec: a block that begins with the declaration of a
  \<^verbatim>\<open>ParkedScope\<close>. The thread is parked, the rest of the block runs, and the thread
  is unparked where the block is left, whatever the enclosed code returns.
\<close>

definition ParkedScope :: "(state \<Rightarrow> 'a \<times> state) \<Rightarrow> state \<Rightarrow> 'a \<times> state" where
  "ParkedScope body s = (let (r, s1) = body (Park s) in (r, Unpark s1))"

text \<open>
  Modelled from the spec: \<^verbatim>\<open>Heap::RequestAndWaitForCollection\<close> (src/heap/heap.cc is not
  among the sources), the blocking request for one collection. The call is recorded;
  what the collection frees shows in the later answers of the space.
\<close>

definition RequestAndWaitForCollection :: "state \<Rightarrow> unit \<times> state" where
  "RequestAndWaitForCollection s = ((), record_call E_RequestAndWaitForCollection s)"

text \<open>The assignment \<^verbatim>\<open>local_heap_->allocation_failed_ = b\<close>, which other threads observe.\<close>

definition set_allocation_failed :: "bool \<Rightarrow> state \<Rightarrow> state" where
  "set_allocation_failed b s = record_call (E_AllocationFailed b) (s\<lparr>allocation_failed := b\<rparr>)"

subsection \<open>The functions of the file\<close>

text \<open>\<^verbatim>\<open>ConcurrentAllocator::FreeLinearAllocationArea\<close> and
  \<^verbatim>\<open>MakeLinearAllocationAreaIterable\<close>.\<close>

definition FreeLinearAllocationArea :: "state \<Rightarrow> state" where
  "FreeLinearAllocationArea s =
     (let (b, s1) = CloseAndMakeIterable (lab s) s in s1\<lparr>lab := b\<rparr>)"

definition MakeLinearAllocationAreaIterable :: "state \<Rightarrow> state" where
  "MakeLinearAllocationAreaIterable s = MakeIterable (lab s) s"

text \<open>\<^verbatim>\<open>ConcurrentAllocator::MarkLinearAllocationAreaBlack\<close> and
  \<^verbatim>\<open>UnmarkLinearAllocationArea\<close>.\<close>

definition MarkLinearAllocationAreaBlack :: "state \<Rightarrow> state" where
  "MarkLinearAllocationAreaBlack s =
     (let top' = lab_top (lab s); limit' = lab_limit (lab s)
      in if top' \<noteq> kNullAddress \<and> top' \<noteq> limit'
         then CreateBlackAreaBackground top' limit' s
         else s)"

definition UnmarkLinearAllocationArea :: "state \<Rightarrow> state" where
  "UnmarkLinearAllocationArea s =
     (let top' = lab_top (lab s); limit' = lab_limit (lab s)
      in if top' \<noteq> kNullAddress \<and> top' \<noteq> limit'
         then DestroyBlackAreaBackground top' limit' s
         else s)"

text \<open>
  \<^verbatim>\<open>ConcurrentAllocator::EnsureLab\<close>. \<open>saved_lab\<close> is the LAB moved out of \<open>lab\<close>
  before the new one is assigned; the assignment finds \<open>lab\<close> empty, so it closes
  nothing. The \<^verbatim>\<open>DCHECK\<close> looks at the new LAB before the merge.
\<close>

definition EnsureLab :: "constants \<Rightarrow> AllocationOrigin \<Rightarrow> state \<Rightarrow> bool \<times> state" where
  "EnsureLab K origin s =
     (case SlowGetLinearAllocationAreaBackground
             (local_heap s) (kLabSize K) (kMaxLabSize K) kWordAligned origin s of
        (None, s1) \<Rightarrow> (False, s1)
      | (Some (first, second), s1) \<Rightarrow>
          (let s2 = (if black_allocation s1
                     then (let top' = first; limit' = top' + second
                           in CreateBlackAreaBackground top' limit' s1)
                     else s1);
               saved_lab = lab s2;
               (new_lab, s3) = FromResult first second s2;
               s4 = record_call (E_DCHECK (IsValid new_lab)) (s3\<lparr>lab := new_lab\<rparr>);
               (merged, new_lab', saved_lab') = TryMerge (lab s4) saved_lab;
               s5 = s4\<lparr>lab := new_lab'\<rparr>
           in if \<not> merged
              then (True, snd (CloseAndMakeIterable saved_lab' s5))
              else (True, s5)))"

text \<open>\<^verbatim>\<open>ConcurrentAllocator::AllocateInLabSlow\<close>.\<close>

definition AllocateInLabSlow ::
  "constants \<Rightarrow> nat \<Rightarrow> AllocationAlignment \<Rightarrow> AllocationOrigin \<Rightarrow> state \<Rightarrow> AllocationResult \<times> state" where
  "AllocateInLabSlow K object_size alignment origin s =
     (case EnsureLab K origin s of
        (False, s1) \<Rightarrow> (Retry OLD_SPACE, s1)
      | (True, s1) \<Rightarrow>
          (let (allocation, s2) = AllocateRawAligned K object_size alignment s1
           in (allocation, record_call (E_DCHECK (\<not> IsRetry allocation)) s2)))"

text \<open>\<^verbatim>\<open>ConcurrentAllocator::AllocateOutsideLab\<close>.\<close>

definition AllocateOutsideLab ::
  "nat \<Rightarrow> AllocationAlignment \<Rightarrow> AllocationOrigin \<Rightarrow> state \<Rightarrow> AllocationResult \<times> state" where
  "AllocateOutsideLab object_size alignment origin s =
     (case SlowGetLinearAllocationAreaBackground
             (local_heap s) object_size object_size alignment origin s of
        (None, s1) \<Rightarrow> (Retry OLD_SPACE, s1)
      | (Some (first, second), s1) \<Rightarrow>
          (let s2 = (if black_allocation s1
                     then MarkBlackBackground first object_size s1
                     else s1)
           in (Success first, s2)))"

text \<open>
  Modelled from the spec: \<^verbatim>\<open>ConcurrentAllocator::Allocate\<close>
  (src/heap/concurrent-allocator-inl.h is not among the sources). A bump allocation
  in the current LAB is attempted; without room the slow path follows: the LAB is
  replenished for a request below the large-object threshold, and an object at or
  above the threshold is allocated outside the LAB.
\<close>

definition Allocate ::
  "constants \<Rightarrow> nat \<Rightarrow> AllocationAlignment \<Rightarrow> AllocationOrigin \<Rightarrow> state \<Rightarrow> AllocationResult \<times> state" where
  "Allocate K object_size alignment origin s =
     (let s0 = record_call (E_Allocate object_size alignment origin) s
      in case AllocateRawAligned K object_size alignment s0 of
           (Success a, s1) \<Rightarrow> (Success a, s1)
         | (Retry sp, s1) \<Rightarrow>
             (if object_size < kLargeObjectThreshold K
              then AllocateInLabSlow K object_size alignment origin s1
              else AllocateOutsideLab object_size alignment origin s1))"

text \<open>
  \<^verbatim>\<open>ConcurrentAllocator::PerformCollectionAndAllocateAgain\<close>: the loop
  \<^verbatim>\<open>for (int i = 0; i < 3; i++)\<close> from the value \<open>i\<close> of its counter on, and the function.
\<close>

function PerformCollectionAndAllocateAgain_loop ::
  "constants \<Rightarrow> nat \<Rightarrow> AllocationAlignment \<Rightarrow> AllocationOrigin \<Rightarrow> nat \<Rightarrow> state \<Rightarrow> (fatal + Address) \<times> state" where
  "PerformCollectionAndAllocateAgain_loop K object_size alignment origin i s =
     (if i < 3
      then (let s1 = snd (ParkedScope RequestAndWaitForCollection s);
                (result, s2) = Allocate K object_size alignment origin s1
            in case result of
                 Success address \<Rightarrow> (Inr address, set_allocation_failed False s2)
               | Retry sp \<Rightarrow>
                   PerformCollectionAndAllocateAgain_loop K object_size alignment origin (i + 1) s2)
      else (Inl (FatalProcessOutOfMemory ''ConcurrentAllocator: allocation failed''),
            record_call (E_FatalProcessOutOfMemory ''ConcurrentAllocator: allocation failed'') s))"
  by pat_completeness auto
termination
  by (relation "measure (\<lambda>(K, object_size, alignment, origin, i, s). 3 - i)") auto

declare PerformCollectionAndAllocateAgain_loop.simps [simp del]

definition PerformCollectionAndAllocateAgain ::
  "constants \<Rightarrow> nat \<Rightarrow> AllocationAlignment \<Rightarrow> AllocationOrigin \<Rightarrow> state \<Rightarrow> (fatal + Address) \<times> state" where
  "PerformCollectionAndAllocateAgain K object_size alignment origin s =
     PerformCollectionAndAllocateAgain_loop K object_size alignment origin 0
       (set_allocation_failed True s)"

subsection \<open>Notions used in the statements\<close>

text \<open>The number of free bytes of a LAB.\<close>

definition capacity :: "LocalAllocationBuffer \<Rightarrow> nat" where
  "capacity b = lab_limit b - lab_top b"


text \<open>Classes of calls.\<close>

fun is_marking_event :: "event \<Rightarrow> bool" where
  "is_marking_event (E_CreateBlackAreaBackground a b) = True"
| "is_marking_event (E_DestroyBlackAreaBackground a b) = True"
| "is_marking_event (E_MarkBlackBackground a n) = True"
| "is_marking_event e = False"

fun is_slice_request :: "event \<Rightarrow> bool" where
  "is_slice_request (E_SlowGetLinearAllocationAreaBackground lh mn mx al og) = True"
| "is_slice_request e = False"

fun is_wait :: "event \<Rightarrow> bool" where
  "is_wait E_RequestAndWaitForCollection = True"
| "is_wait e = False"

fun is_allocate :: "event \<Rightarrow> bool" where
  "is_allocate (E_Allocate n al og) = True"
| "is_allocate e = False"

text \<open>The calls that the slow path of an allocation makes.\<close>

fun is_slow_path_event :: "event \<Rightarrow> bool" where
  "is_slow_path_event (E_SlowGetLinearAllocationAreaBackground lh mn mx al og) = True"
| "is_slow_path_event (E_CreateBlackAreaBackground a b) = True"
| "is_slow_path_event (E_MarkBlackBackground a n) = True"
| "is_slow_path_event (E_FromResult a n) = True"
| "is_slow_path_event (E_CreateFiller a n) = True"
| "is_slow_path_event (E_DCHECK b) = True"
| "is_slow_path_event e = False"

text \<open>A step that leaves the flags of the thread alone and makes slow-path calls only.\<close>

definition slow_step :: "state \<Rightarrow> state \<Rightarrow> bool" where
  "slow_step s s' \<longleftrightarrow>
     parked s' = parked s \<and> allocation_failed s' = allocation_failed s \<and>
     (\<exists>es. trace s' = trace s @ es \<and> list_all is_slow_path_event es)"

text \<open>
  One iteration of the retry loop up to the result of its \<^verbatim>\<open>Allocate\<close>: the parked
  wait, then the attempt.
\<close>

definition attempt ::
  "constants \<Rightarrow> nat \<Rightarrow> AllocationAlignment \<Rightarrow> AllocationOrigin \<Rightarrow> state \<Rightarrow> AllocationResult \<times> state" where
  "attempt K object_size alignment origin s =
     Allocate K object_size alignment origin (snd (ParkedScope RequestAndWaitForCollection s))"

text \<open>The first \<open>n\<close> attempts made from a state all return \<open>Retry\<close>; and the state that
  \<open>n\<close> attempts lead to.\<close>

fun every_attempt_retries ::
  "constants \<Rightarrow> nat \<Rightarrow> AllocationAlignment \<Rightarrow> AllocationOrigin \<Rightarrow> nat \<Rightarrow> state \<Rightarrow> bool" where
  "every_attempt_retries K object_size alignment origin 0 s = True"
| "every_attempt_retries K object_size alignment origin (Suc n) s =
     (IsRetry (fst (attempt K object_size alignment origin s)) \<and>
      every_attempt_retries K object_size alignment origin n
        (snd (attempt K object_size alignment origin s)))"

fun after_retries ::
  "constants \<Rightarrow> nat \<Rightarrow> AllocationAlignment \<Rightarrow> AllocationOrigin \<Rightarrow> nat \<Rightarrow> state \<Rightarrow> state" where
  "after_retries K object_size alignment origin 0 s = s"
| "after_retries K object_size alignment origin (Suc n) s =
     after_retries K object_size alignment origin n (snd (attempt K object_size alignment origin s))"

text \<open>
  The discipline of the parked scope, read off a sequence of calls. A thread is
  running, or parked with the wait still to come, or parked with the wait behind it.
  Parking is followed by the wait and the wait by unparking; every other call is made
  by a running thread. \<open>None\<close> is a violation.
\<close>

datatype phase = Running | Parked_before_wait | Parked_after_wait

fun scope_step :: "phase \<Rightarrow> event \<Rightarrow> phase option" where
  "scope_step Running e =
     (case e of
        E_Park \<Rightarrow> Some Parked_before_wait
      | E_Unpark \<Rightarrow> None
      | E_RequestAndWaitForCollection \<Rightarrow> None
      | _ \<Rightarrow> Some Running)"
| "scope_step Parked_before_wait e =
     (case e of E_RequestAndWaitForCollection \<Rightarrow> Some Parked_after_wait | _ \<Rightarrow> None)"
| "scope_step Parked_after_wait e =
     (case e of E_Unpark \<Rightarrow> Some Running | _ \<Rightarrow> None)"

fun scope_run :: "phase \<Rightarrow> event list \<Rightarrow> phase option" where
  "scope_run p [] = Some p"
| "scope_run p (e # es) = (case scope_step p e of None \<Rightarrow> None | Some p' \<Rightarrow> scope_run p' es)"

definition parked_discipline :: "event list \<Rightarrow> bool" where
  "parked_discipline es \<longleftrightarrow> scope_run Running es = Some Running"

subsection \<open>Example inputs\<close>

text \<open>Constants as on a 32-bit heap: words of 4 bytes, doubles of 8.\<close>

definition example_fill :: "Address \<Rightarrow> AllocationAlignment \<Rightarrow> nat" where
  "example_fill a alignment =
     (case alignment of
        kWordAligned \<Rightarrow> 0
      | kDoubleAligned \<Rightarrow> (if a mod 8 = 0 then 0 else 4)
      | kDoubleUnaligned \<Rightarrow> (if a mod 8 = 0 then 4 else 0))"

definition example_constants :: constants where
  "example_constants =
     \<lparr>kLabSize = 4096, kMaxLabSize = 32768, kLargeObjectThreshold = 2048,
      GetFillToAlign = example_fill\<rparr>"

text \<open>A thread that holds a LAB with 192 free bytes while black allocation is active;
  the space will grant the 4096 bytes that follow the LAB.\<close>

definition example_state :: state where
  "example_state =
     \<lparr>lab = \<lparr>lab_top = 8000, lab_limit = 8192\<rparr>, local_heap = 1, allocation_failed = False,
      parked = False, black_allocation = True, black = {}, fillers = [],
      space = [Some (8192, 4096)], trace = []\<rparr>"

text \<open>The same thread in front of a space that grants a slice elsewhere, of a space
  that has nothing left, of a space that refuses once and grants then, and of a space
  that grants a slice at the null address.\<close>

definition apart_state :: state where
  "apart_state = example_state\<lparr>space := [Some (16384, 4096)]\<rparr>"

definition exhausted_state :: state where
  "exhausted_state = example_state\<lparr>space := []\<rparr>"



section \<open>Properties\<close>

subsection \<open>What a replenishment does\<close>

lemma new_events_append: "trace s' = trace s @ es \<Longrightarrow> new_events s s' = es"
  by (simp add: new_events_def)

lemma space_cases:
  obtains (empty) "space s = []"
  | (refused) rest where "space s = None # rest"
  | (granted) address n rest where "space s = Some (address, n) # rest"
proof (cases "space s")
  case Nil
  then show ?thesis by (rule empty)
next
  case (Cons r rest)
  then show ?thesis by (cases r) (auto intro: refused granted)
qed

text \<open>The two outcomes of \<open>EnsureLab\<close>, with every field of the state after the call.\<close>

lemma EnsureLab_granted:
  assumes "space s = Some (address, n) # rest"
  shows "EnsureLab K origin s =
     (True,
      s\<lparr>lab := (if address = lab_limit (lab s)
                 then \<lparr>lab_top = lab_top (lab s), lab_limit = address + n\<rparr>
                 else \<lparr>lab_top = address, lab_limit = address + n\<rparr>),
        black := (if black_allocation s then black s \<union> {address..<address + n} else black s),
        fillers := (if address \<noteq> lab_limit (lab s) \<and> IsValid (lab s)
                    then fillers s @ [(lab_top (lab s), lab_limit (lab s) - lab_top (lab s))]
                    else fillers s),
        space := rest,
        trace := trace s
           @ [E_SlowGetLinearAllocationAreaBackground (local_heap s) (kLabSize K) (kMaxLabSize K) kWordAligned origin]
           @ (if black_allocation s then [E_CreateBlackAreaBackground address (address + n)] else [])
           @ [E_FromResult address n, E_DCHECK (address \<noteq> kNullAddress)]
           @ (if address \<noteq> lab_limit (lab s) \<and> IsValid (lab s)
              then [E_CreateFiller (lab_top (lab s)) (lab_limit (lab s) - lab_top (lab s))] else [])\<rparr>)"
  using assms
  by (simp add: EnsureLab_def SlowGetLinearAllocationAreaBackground_def record_call_def
      CreateBlackAreaBackground_def FromResult_def TryMerge_def CloseAndMakeIterable_def
      MakeIterable_def IsValid_def InvalidBuffer_def Let_def)

lemma EnsureLab_refused:
  assumes "space s = [] \<or> (\<exists>rest. space s = None # rest)"
  shows "EnsureLab K origin s =
     (False, s\<lparr>space := tl (space s), trace := trace s
           @ [E_SlowGetLinearAllocationAreaBackground (local_heap s) (kLabSize K) (kMaxLabSize K) kWordAligned origin]\<rparr>)"
  using assms
  by (auto simp add: EnsureLab_def SlowGetLinearAllocationAreaBackground_def record_call_def Let_def)

subsection \<open>The calls of an allocation attempt\<close>

lemma slow_step_refl: "slow_step s s"
  by (simp add: slow_step_def)

lemma slow_step_trans: "slow_step s s1 \<Longrightarrow> slow_step s1 s2 \<Longrightarrow> slow_step s s2"
  by (auto simp add: slow_step_def)

lemma slow_step_EnsureLab: "slow_step s (snd (EnsureLab K origin s))"
  by (cases s rule: space_cases)
    (simp_all add: EnsureLab_granted EnsureLab_refused slow_step_def)

lemma slow_step_AllocateRawAligned: "slow_step s (snd (AllocateRawAligned K object_size alignment s))"
  by (simp add: AllocateRawAligned_def Let_def slow_step_def)

lemma slow_step_record_call: "is_slow_path_event e \<Longrightarrow> slow_step s (record_call e s)"
  by (simp add: slow_step_def record_call_def)

lemma slow_step_AllocateInLabSlow:
  "slow_step s (snd (AllocateInLabSlow K object_size alignment origin s))"
proof (cases "EnsureLab K origin s")
  case (Pair ok s1)
  with slow_step_EnsureLab [of s K origin] have 1: "slow_step s s1" by simp
  show ?thesis
  proof (cases ok)
    case False
    with Pair 1 show ?thesis by (simp add: AllocateInLabSlow_def)
  next
    case True
    obtain r s2 where r: "AllocateRawAligned K object_size alignment s1 = (r, s2)"
      by (cases "AllocateRawAligned K object_size alignment s1")
    with slow_step_AllocateRawAligned [of s1 K object_size alignment] have "slow_step s1 s2" by simp
    then have "slow_step s1 (record_call (E_DCHECK (\<not> IsRetry r)) s2)"
      by (rule slow_step_trans) (simp add: slow_step_record_call)
    with 1 have "slow_step s (record_call (E_DCHECK (\<not> IsRetry r)) s2)" by (rule slow_step_trans)
    with Pair True r show ?thesis by (simp add: AllocateInLabSlow_def)
  qed
qed

lemma slow_step_AllocateOutsideLab:
  "slow_step s (snd (AllocateOutsideLab object_size alignment origin s))"
  by (cases s rule: space_cases)
    (simp_all add: AllocateOutsideLab_def SlowGetLinearAllocationAreaBackground_def record_call_def
      MarkBlackBackground_def slow_step_def Let_def)

lemma Allocate_steps:
  "slow_step (record_call (E_Allocate object_size alignment origin) s)
     (snd (Allocate K object_size alignment origin s))"
proof -
  let ?s0 = "record_call (E_Allocate object_size alignment origin) s"
  obtain r s1 where r: "AllocateRawAligned K object_size alignment ?s0 = (r, s1)"
    by (cases "AllocateRawAligned K object_size alignment ?s0")
  with slow_step_AllocateRawAligned [of ?s0 K object_size alignment] have 1: "slow_step ?s0 s1" by simp
  show ?thesis
  proof (cases r)
    case (Success a)
    with r 1 show ?thesis by (simp add: Allocate_def)
  next
    case (Retry sp)
    show ?thesis
    proof (cases "object_size < kLargeObjectThreshold K")
      case True
      from 1 slow_step_AllocateInLabSlow [of s1 K object_size alignment origin]
      have "slow_step ?s0 (snd (AllocateInLabSlow K object_size alignment origin s1))"
        by (rule slow_step_trans)
      with r Retry True show ?thesis by (simp add: Allocate_def)
    next
      case False
      from 1 slow_step_AllocateOutsideLab [of s1 object_size alignment origin]
      have "slow_step ?s0 (snd (AllocateOutsideLab object_size alignment origin s1))"
        by (rule slow_step_trans)
      with r Retry False show ?thesis by (simp add: Allocate_def)
    qed
  qed
qed

lemma attempt_steps:
  "\<exists>es. trace (snd (attempt K object_size alignment origin s)) =
          trace s @ [E_Park, E_RequestAndWaitForCollection, E_Unpark, E_Allocate object_size alignment origin] @ es \<and>
        list_all is_slow_path_event es"
  using Allocate_steps [of object_size alignment origin "snd (ParkedScope RequestAndWaitForCollection s)" K]
  by (auto simp add: attempt_def slow_step_def ParkedScope_def RequestAndWaitForCollection_def
      Park_def Unpark_def record_call_def)

lemma attempt_flags:
  "parked (snd (attempt K object_size alignment origin s)) = False \<and>
   allocation_failed (snd (attempt K object_size alignment origin s)) = allocation_failed s"
  using Allocate_steps [of object_size alignment origin "snd (ParkedScope RequestAndWaitForCollection s)" K]
  by (auto simp add: attempt_def slow_step_def ParkedScope_def RequestAndWaitForCollection_def
      Park_def Unpark_def record_call_def)

subsection \<open>The retry loop\<close>

lemma loop_step:
  assumes "i < 3"
  shows "PerformCollectionAndAllocateAgain_loop K object_size alignment origin i s =
     (case attempt K object_size alignment origin s of
        (Success address, s2) \<Rightarrow> (Inr address, set_allocation_failed False s2)
      | (Retry sp, s2) \<Rightarrow>
          PerformCollectionAndAllocateAgain_loop K object_size alignment origin (i + 1) s2)"
  using assms
  by (subst PerformCollectionAndAllocateAgain_loop.simps)
    (simp add: attempt_def Let_def split: prod.splits)

lemma loop_exit:
  assumes "\<not> i < 3"
  shows "PerformCollectionAndAllocateAgain_loop K object_size alignment origin i s =
     (Inl (FatalProcessOutOfMemory ''ConcurrentAllocator: allocation failed''),
      record_call (E_FatalProcessOutOfMemory ''ConcurrentAllocator: allocation failed'') s)"
  using assms by (subst PerformCollectionAndAllocateAgain_loop.simps) simp

lemma loop_skip:
  "every_attempt_retries K object_size alignment origin n s \<Longrightarrow> i + n \<le> 3 \<Longrightarrow>
   PerformCollectionAndAllocateAgain_loop K object_size alignment origin i s =
   PerformCollectionAndAllocateAgain_loop K object_size alignment origin (i + n)
     (after_retries K object_size alignment origin n s)"
proof (induction n arbitrary: i s)
  case 0
  then show ?case by simp
next
  case (Suc n)
  obtain r s2 where a: "attempt K object_size alignment origin s = (r, s2)"
    by (cases "attempt K object_size alignment origin s")
  from Suc.prems(1) a obtain sp where r: "r = Retry sp" by (cases r) auto
  from Suc.prems(1) a have e: "every_attempt_retries K object_size alignment origin n s2" by simp
  from Suc.prems(2) have "i < 3" and "Suc i + n \<le> 3" by simp_all
  from loop_step [OF \<open>i < 3\<close>, of K object_size alignment origin s] a r
  have "PerformCollectionAndAllocateAgain_loop K object_size alignment origin i s =
        PerformCollectionAndAllocateAgain_loop K object_size alignment origin (Suc i) s2" by simp
  also from Suc.IH [OF e \<open>Suc i + n \<le> 3\<close>]
  have "\<dots> = PerformCollectionAndAllocateAgain_loop K object_size alignment origin (Suc i + n)
                 (after_retries K object_size alignment origin n s2)" .
  finally show ?case using a by simp
qed

lemma slow_path_event_not_wait: "list_all is_slow_path_event es \<Longrightarrow> filter is_wait es = []"
  by (induction es) (auto elim: is_slow_path_event.elims)

lemma slow_path_event_not_allocate: "list_all is_slow_path_event es \<Longrightarrow> filter is_allocate es = []"
  by (induction es) (auto elim: is_slow_path_event.elims)

lemma after_retries_events:
  "\<exists>es. trace (after_retries K object_size alignment origin n s) = trace s @ es \<and>
        length (filter is_wait es) = n \<and> length (filter is_allocate es) = n"
proof (induction n arbitrary: s)
  case 0
  then show ?case by simp
next
  case (Suc n)
  let ?s2 = "snd (attempt K object_size alignment origin s)"
  from attempt_steps [of K object_size alignment origin s] obtain es1 where
    1: "trace ?s2 = trace s @ [E_Park, E_RequestAndWaitForCollection, E_Unpark, E_Allocate object_size alignment origin] @ es1"
    and 2: "list_all is_slow_path_event es1" by blast
  from Suc.IH [of ?s2] obtain es2 where
    3: "trace (after_retries K object_size alignment origin n ?s2) = trace ?s2 @ es2"
    and 4: "length (filter is_wait es2) = n" "length (filter is_allocate es2) = n" by blast
  let ?es = "[E_Park, E_RequestAndWaitForCollection, E_Unpark, E_Allocate object_size alignment origin] @ es1 @ es2"
  from 1 3 have "trace (after_retries K object_size alignment origin (Suc n) s) = trace s @ ?es" by simp
  moreover from 2 4 have "length (filter is_wait ?es) = Suc n" "length (filter is_allocate ?es) = Suc n"
    by (simp_all add: slow_path_event_not_wait slow_path_event_not_allocate)
  ultimately show ?case by blast
qed

lemma scope_run_append:
  "scope_run p (es1 @ es2) = (case scope_run p es1 of None \<Rightarrow> None | Some p' \<Rightarrow> scope_run p' es2)"
  by (induction es1 arbitrary: p) (simp_all split: option.splits)

lemma slow_path_events_running:
  "list_all is_slow_path_event es \<Longrightarrow> scope_run Running es = Some Running"
  by (induction es) (auto elim: is_slow_path_event.elims)

lemma parked_discipline_append:
  "parked_discipline es1 \<Longrightarrow> parked_discipline es2 \<Longrightarrow> parked_discipline (es1 @ es2)"
  by (simp add: parked_discipline_def scope_run_append)

lemma attempt_discipline:
  "\<exists>es. trace (snd (attempt K object_size alignment origin s)) =
          trace s @ E_Park # E_RequestAndWaitForCollection # E_Unpark # es \<and>
        parked_discipline (E_Park # E_RequestAndWaitForCollection # E_Unpark # es) \<and>
        length (filter is_wait es) = 0"
proof -
  from attempt_steps [of K object_size alignment origin s] obtain es1 where
    1: "trace (snd (attempt K object_size alignment origin s)) =
          trace s @ [E_Park, E_RequestAndWaitForCollection, E_Unpark, E_Allocate object_size alignment origin] @ es1"
    and 2: "list_all is_slow_path_event es1" by blast
  from 2 have "parked_discipline (E_Park # E_RequestAndWaitForCollection # E_Unpark #
      E_Allocate object_size alignment origin # es1)"
    by (simp add: parked_discipline_def slow_path_events_running)
  with 1 2 show ?thesis by (simp add: slow_path_event_not_wait)
qed

lemma loop_events:
  "3 - i = n \<Longrightarrow>
   \<exists>es. trace (snd (PerformCollectionAndAllocateAgain_loop K object_size alignment origin i s)) =
          trace s @ es \<and>
        parked_discipline es \<and> length (filter is_wait es) \<le> n \<and>
        (i < 3 \<longrightarrow> take 2 es = [E_Park, E_RequestAndWaitForCollection] \<and>
           \<not> parked (snd (PerformCollectionAndAllocateAgain_loop K object_size alignment origin i s)))"
proof (induction n arbitrary: i s)
  case 0
  then have "\<not> i < 3" by simp
  then show ?case
    by (simp add: loop_exit record_call_def parked_discipline_def)
next
  case (Suc n)
  then have i: "i < 3" and n: "3 - (i + 1) = n" by simp_all
  obtain r s2 where a: "attempt K object_size alignment origin s = (r, s2)"
    by (cases "attempt K object_size alignment origin s")
  from attempt_discipline [of K object_size alignment origin s] a obtain es1 where
    1: "trace s2 = trace s @ E_Park # E_RequestAndWaitForCollection # E_Unpark # es1"
    and 2: "parked_discipline (E_Park # E_RequestAndWaitForCollection # E_Unpark # es1)"
    and 3: "length (filter is_wait es1) = 0" by auto
  from attempt_flags [of K object_size alignment origin s] a have p: "\<not> parked s2" by simp
  let ?es1 = "E_Park # E_RequestAndWaitForCollection # E_Unpark # es1"
  show ?case
  proof (cases r)
    case (Success address)
    with a i have r: "PerformCollectionAndAllocateAgain_loop K object_size alignment origin i s =
        (Inr address, set_allocation_failed False s2)" by (simp add: loop_step)
    have "parked_discipline [E_AllocationFailed False]" by (simp add: parked_discipline_def)
    with 2 have "parked_discipline (?es1 @ [E_AllocationFailed False])"
      by (rule parked_discipline_append)
    moreover have "trace (set_allocation_failed False s2) = trace s @ ?es1 @ [E_AllocationFailed False]"
      using 1 by (simp add: set_allocation_failed_def record_call_def)
    moreover have "length (filter is_wait (?es1 @ [E_AllocationFailed False])) \<le> Suc n"
      using 3 by simp
    moreover have "\<not> parked (set_allocation_failed False s2)"
      using p by (simp add: set_allocation_failed_def record_call_def)
    moreover have "take 2 (?es1 @ [E_AllocationFailed False]) = [E_Park, E_RequestAndWaitForCollection]"
      by simp
    ultimately show ?thesis unfolding r by (metis snd_conv)
  next
    case (Retry sp)
    with a i have r: "PerformCollectionAndAllocateAgain_loop K object_size alignment origin i s =
        PerformCollectionAndAllocateAgain_loop K object_size alignment origin (i + 1) s2"
      by (simp add: loop_step)
    let ?s' = "snd (PerformCollectionAndAllocateAgain_loop K object_size alignment origin (i + 1) s2)"
    from Suc.IH [OF n, of s2] obtain es2 where
      4: "trace ?s' = trace s2 @ es2" and 5: "parked_discipline es2"
      and 6: "length (filter is_wait es2) \<le> n"
      and 7: "i + 1 < 3 \<longrightarrow> \<not> parked ?s'" by blast
    have 8: "\<not> parked ?s'"
    proof (cases "i + 1 < 3")
      case True
      with 7 show ?thesis by simp
    next
      case False
      with p show ?thesis by (simp add: loop_exit record_call_def)
    qed
    from 2 5 have "parked_discipline (?es1 @ es2)" by (rule parked_discipline_append)
    moreover from 1 4 have "trace ?s' = trace s @ ?es1 @ es2" by simp
    moreover from 3 6 have "length (filter is_wait (?es1 @ es2)) \<le> Suc n" by simp
    moreover have "take 2 (?es1 @ es2) = [E_Park, E_RequestAndWaitForCollection]" by simp
    ultimately show ?thesis unfolding r using 8 by metis
  qed
qed

lemma PerformCollectionAndAllocateAgain_events:
  "\<exists>es. trace (snd (PerformCollectionAndAllocateAgain K object_size alignment origin s)) =
          trace s @ E_AllocationFailed True # es \<and>
        parked_discipline es \<and> length (filter is_wait es) \<le> 3 \<and>
        take 2 es = [E_Park, E_RequestAndWaitForCollection] \<and>
        \<not> parked (snd (PerformCollectionAndAllocateAgain K object_size alignment origin s))"
  using loop_events [of 0 3 K object_size alignment origin "set_allocation_failed True s"]
  by (auto simp add: PerformCollectionAndAllocateAgain_def set_allocation_failed_def record_call_def)


subsection \<open>Attempts in front of a space that refuses\<close>

lemma attempt_refused:
  assumes "lab_limit (lab s) < lab_top (lab s) + GetFillToAlign K (lab_top (lab s)) alignment + object_size"
    and "object_size < kLargeObjectThreshold K"
    and "space s = [] \<or> space s = None # rest"
  shows "fst (attempt K object_size alignment origin s) = Retry OLD_SPACE \<and>
         lab (snd (attempt K object_size alignment origin s)) = lab s \<and>
         space (snd (attempt K object_size alignment origin s)) = tl (space s)"
  using assms
  by (auto simp add: attempt_def Allocate_def AllocateRawAligned_def AllocateInLabSlow_def
      EnsureLab_def SlowGetLinearAllocationAreaBackground_def ParkedScope_def Park_def Unpark_def
      RequestAndWaitForCollection_def record_call_def Let_def)

lemma example_no_room:
  "lab s = \<lparr>lab_top = 8000, lab_limit = 8192\<rparr> \<Longrightarrow>
   lab_limit (lab s) < lab_top (lab s) + GetFillToAlign example_constants (lab_top (lab s)) kWordAligned + 1024 \<and>
   1024 < kLargeObjectThreshold example_constants"
  by (simp add: example_constants_def example_fill_def)

text \<open>
  C1. Whenever every \<open>Allocate\<close> that \<open>PerformCollectionAndAllocateAgain\<close> retries
  returns \<open>Retry\<close>, the function waits for a collection exactly 3 times, attempts the
  allocation exactly 3 times, and ends in the fatal out-of-memory failure, which is
  its last call; its result is never a \<open>Retry\<close>.
\<close>

theorem PerformCollectionAndAllocateAgain_bounded:
  assumes "every_attempt_retries K object_size alignment origin 3 (set_allocation_failed True s)"
  shows "fst (PerformCollectionAndAllocateAgain K object_size alignment origin s) =
           Inl (FatalProcessOutOfMemory ''ConcurrentAllocator: allocation failed'') \<and>
         length (filter is_wait (new_events s
           (snd (PerformCollectionAndAllocateAgain K object_size alignment origin s)))) = 3 \<and>
         length (filter is_allocate (new_events s
           (snd (PerformCollectionAndAllocateAgain K object_size alignment origin s)))) = 3 \<and>
         last (trace (snd (PerformCollectionAndAllocateAgain K object_size alignment origin s))) =
           E_FatalProcessOutOfMemory ''ConcurrentAllocator: allocation failed''"
proof -
  let ?s0 = "set_allocation_failed True s"
  let ?s3 = "after_retries K object_size alignment origin 3 ?s0"
  let ?msg = "''ConcurrentAllocator: allocation failed''"
  from loop_skip [OF assms, of 0]
  have "PerformCollectionAndAllocateAgain K object_size alignment origin s =
        PerformCollectionAndAllocateAgain_loop K object_size alignment origin 3 ?s3"
    by (simp add: PerformCollectionAndAllocateAgain_def)
  then have r: "PerformCollectionAndAllocateAgain K object_size alignment origin s =
        (Inl (FatalProcessOutOfMemory ?msg), record_call (E_FatalProcessOutOfMemory ?msg) ?s3)"
    by (simp add: loop_exit)
  from after_retries_events [of K object_size alignment origin 3 ?s0] obtain es where
    es: "trace ?s3 = trace ?s0 @ es" "length (filter is_wait es) = 3" "length (filter is_allocate es) = 3"
    by blast
  then have "trace (record_call (E_FatalProcessOutOfMemory ?msg) ?s3) =
      trace s @ (E_AllocationFailed True # es @ [E_FatalProcessOutOfMemory ?msg])"
    by (simp add: record_call_def set_allocation_failed_def)
  then have "new_events s (record_call (E_FatalProcessOutOfMemory ?msg) ?s3) =
      E_AllocationFailed True # es @ [E_FatalProcessOutOfMemory ?msg]"
    by (rule new_events_append)
  with es r show ?thesis by (simp add: record_call_def)
qed

theorem PerformCollectionAndAllocateAgain_bounded_witness:
  "every_attempt_retries example_constants 1024 kWordAligned kRuntime 3
     (set_allocation_failed True exhausted_state) \<and>
   fst (PerformCollectionAndAllocateAgain example_constants 1024 kWordAligned kRuntime exhausted_state) =
     Inl (FatalProcessOutOfMemory ''ConcurrentAllocator: allocation failed'') \<and>
   length (filter is_wait (new_events exhausted_state
     (snd (PerformCollectionAndAllocateAgain example_constants 1024 kWordAligned kRuntime
        exhausted_state)))) = 3"
proof -
  have l: "lab (set_allocation_failed True exhausted_state) = \<lparr>lab_top = 8000, lab_limit = 8192\<rparr>"
    and e: "space (set_allocation_failed True exhausted_state) = []"
    by (simp_all add: set_allocation_failed_def record_call_def exhausted_state_def example_state_def)
  have a: "fst (attempt example_constants 1024 kWordAligned kRuntime s) = Retry OLD_SPACE \<and>
      lab (snd (attempt example_constants 1024 kWordAligned kRuntime s)) = \<lparr>lab_top = 8000, lab_limit = 8192\<rparr> \<and>
      space (snd (attempt example_constants 1024 kWordAligned kRuntime s)) = []"
    if "lab s = \<lparr>lab_top = 8000, lab_limit = 8192\<rparr>" and "space s = []" for s
    using attempt_refused [of s example_constants kWordAligned 1024 "[]" kRuntime]
      example_no_room [OF that(1)] that by simp
  have h: "every_attempt_retries example_constants 1024 kWordAligned kRuntime 3
     (set_allocation_failed True exhausted_state)"
    by (simp add: numeral_3_eq_3 a l e)
  from PerformCollectionAndAllocateAgain_bounded [OF h] h show ?thesis by simp
qed




subsection \<open>Replenishing the LAB\<close>

text \<open>
  C3. When the Shared Space grants \<open>EnsureLab\<close> a slice of \<open>n\<close> bytes at \<open>address\<close>
  while black allocation is active, \<open>EnsureLab\<close> returns true, every address of the
  granted range from \<open>address\<close> up to \<open>address + n\<close> is marked black when it returns,
  and the black area of exactly that range is created right after the request and
  before the new LAB is constructed.
\<close>

theorem EnsureLab_marks_whole_slice:
  assumes "space s = Some (address, n) # rest" and "black_allocation s"
  shows "fst (EnsureLab K origin s) \<and>
         {address..<address + n} \<subseteq> black (snd (EnsureLab K origin s)) \<and>
         take 3 (new_events s (snd (EnsureLab K origin s))) =
           [E_SlowGetLinearAllocationAreaBackground (local_heap s) (kLabSize K) (kMaxLabSize K)
              kWordAligned origin,
            E_CreateBlackAreaBackground address (address + n),
            E_FromResult address n]"
  using assms by (simp add: EnsureLab_granted new_events_def)

theorem EnsureLab_marks_whole_slice_witness:
  "space example_state = Some (8192, 4096) # [] \<and> black_allocation example_state \<and>
   fst (EnsureLab example_constants kRuntime example_state) \<and>
   {8192..<12288} \<subseteq> black (snd (EnsureLab example_constants kRuntime example_state)) \<and>
   take 3 (new_events example_state (snd (EnsureLab example_constants kRuntime example_state))) =
     [E_SlowGetLinearAllocationAreaBackground 1 4096 32768 kWordAligned kRuntime,
      E_CreateBlackAreaBackground 8192 12288, E_FromResult 8192 4096]"
  using EnsureLab_marks_whole_slice [of example_state 8192 4096 "[]" example_constants kRuntime]
  by (simp add: example_state_def example_constants_def)

text \<open>
  C4. After a successful replenishment of a LAB with \<open>top \<le> limit\<close>: when the granted
  slice begins where the previous LAB ends, the LAB reaches from the previous top to
  the end of the slice, its capacity is the sum of both, and no filler is written;
  otherwise the LAB is the slice alone, its capacity is the size of the slice, and the
  unused tail of a previous LAB that was held has become a filler object.
\<close>

theorem EnsureLab_merge_on_replenish:
  assumes "space s = Some (address, n) # rest" and "lab_top (lab s) \<le> lab_limit (lab s)"
  shows "(lab_limit (lab s) = address \<longrightarrow>
            lab (snd (EnsureLab K origin s)) = \<lparr>lab_top = lab_top (lab s), lab_limit = address + n\<rparr> \<and>
            capacity (lab (snd (EnsureLab K origin s))) = capacity (lab s) + n \<and>
            fillers (snd (EnsureLab K origin s)) = fillers s) \<and>
         (lab_limit (lab s) \<noteq> address \<longrightarrow>
            lab (snd (EnsureLab K origin s)) = \<lparr>lab_top = address, lab_limit = address + n\<rparr> \<and>
            capacity (lab (snd (EnsureLab K origin s))) = n \<and>
            fillers (snd (EnsureLab K origin s)) =
              fillers s @ (if IsValid (lab s) then [(lab_top (lab s), capacity (lab s))] else []))"
  using assms by (auto simp add: EnsureLab_granted capacity_def)

theorem EnsureLab_merge_on_replenish_witness:
  "capacity (lab example_state) = 192 \<and>
   capacity (lab (snd (EnsureLab example_constants kRuntime example_state))) = 192 + 4096 \<and>
   fillers (snd (EnsureLab example_constants kRuntime example_state)) = [] \<and>
   capacity (lab (snd (EnsureLab example_constants kRuntime apart_state))) = 4096 \<and>
   fillers (snd (EnsureLab example_constants kRuntime apart_state)) = [(8000, 192)]"
  using EnsureLab_merge_on_replenish [of example_state 8192 4096 "[]" example_constants kRuntime]
    EnsureLab_merge_on_replenish [of apart_state 16384 4096 "[]" example_constants kRuntime]
  by (simp add: apart_state_def example_state_def capacity_def IsValid_def kNullAddress_def)

text \<open>
  C5, as the code has it. A request that replenishes the LAB makes one slice request:
  for the thread context of the allocator, with \<open>kLabSize\<close> as minimal and
  \<open>kMaxLabSize\<close> as maximal size, with the origin it was given, and always
  word-aligned, whatever the alignment of the request that triggered it.
\<close>

theorem EnsureLab_request:
  "filter is_slice_request (new_events s (snd (EnsureLab K origin s))) =
     [E_SlowGetLinearAllocationAreaBackground (local_heap s) (kLabSize K) (kMaxLabSize K)
        kWordAligned origin] \<and>
   filter is_slice_request
     (new_events s (snd (AllocateInLabSlow K object_size alignment origin s))) =
     [E_SlowGetLinearAllocationAreaBackground (local_heap s) (kLabSize K) (kMaxLabSize K)
        kWordAligned origin]"
proof -
  let ?r = "E_SlowGetLinearAllocationAreaBackground (local_heap s) (kLabSize K) (kMaxLabSize K)
        kWordAligned origin"
  have 1: "\<exists>es. trace (snd (EnsureLab K origin s)) = trace s @ ?r # es \<and>
                 filter is_slice_request es = []"
    by (cases s rule: space_cases) (simp_all add: EnsureLab_granted EnsureLab_refused)
  then obtain es where es: "trace (snd (EnsureLab K origin s)) = trace s @ ?r # es"
    "filter is_slice_request es = []" by blast
  have 2: "\<exists>es'. trace (snd (AllocateInLabSlow K object_size alignment origin s)) =
                   trace (snd (EnsureLab K origin s)) @ es' \<and> filter is_slice_request es' = []"
    by (cases "EnsureLab K origin s")
      (auto simp add: AllocateInLabSlow_def AllocateRawAligned_def Let_def record_call_def
        split: bool.splits)
  then obtain es' where es': "trace (snd (AllocateInLabSlow K object_size alignment origin s)) =
      trace (snd (EnsureLab K origin s)) @ es'" "filter is_slice_request es' = []" by blast
  from es have "new_events s (snd (EnsureLab K origin s)) = ?r # es"
    by (simp add: new_events_def)
  moreover from es es' have "new_events s (snd (AllocateInLabSlow K object_size alignment origin s)) =
      ?r # es @ es'"
    by (simp add: new_events_def)
  ultimately show ?thesis using es(2) es'(2) by simp
qed

theorem EnsureLab_request_witness:
  "filter is_slice_request (new_events example_state
     (snd (AllocateInLabSlow example_constants 200 kDoubleAligned kRuntime example_state))) =
   [E_SlowGetLinearAllocationAreaBackground 1 4096 32768 kWordAligned kRuntime]"
  using EnsureLab_request [of example_state example_constants kRuntime 200 kDoubleAligned]
  by (simp add: example_state_def example_constants_def)

text \<open>
  C5, as the specification has it, fails. A double-aligned request of 200 bytes does
  not fit into the 192 free bytes of the LAB, so the bump allocation returns \<open>Retry\<close>
  and the LAB is replenished; the slice request made for it is not double-aligned.
\<close>

theorem EnsureLab_request_alignment_counterexample:
  "IsRetry (fst (AllocateRawAligned example_constants 200 kDoubleAligned example_state)) \<and>
   filter is_slice_request (new_events example_state
     (snd (AllocateInLabSlow example_constants 200 kDoubleAligned kRuntime example_state))) \<noteq>
   [E_SlowGetLinearAllocationAreaBackground 1 4096 32768 kDoubleAligned kRuntime]"
  by (simp add: AllocateInLabSlow_def EnsureLab_def SlowGetLinearAllocationAreaBackground_def
      AllocateRawAligned_def CreateBlackAreaBackground_def FromResult_def TryMerge_def
      CloseAndMakeIterable_def MakeIterable_def IsValid_def InvalidBuffer_def kNullAddress_def
      record_call_def new_events_def Let_def example_state_def example_constants_def
      example_fill_def)




subsection \<open>Allocating outside the LAB\<close>

text \<open>
  C7. \<open>AllocateOutsideLab\<close> first requests a slice with \<open>object_size\<close> as minimal and as
  maximal size, with the alignment and the origin it was given. When the space
  refuses, the result is \<open>Retry\<close>, nothing is marked and no further call is made. When
  the space grants a slice at \<open>address\<close>, the result is that address; with black
  allocation active exactly the \<open>object_size\<close> bytes at \<open>address\<close> are marked black, by
  the one call that follows the request; without it nothing is marked.
\<close>

theorem AllocateOutsideLab_exact:
  "hd (new_events s (snd (AllocateOutsideLab object_size alignment origin s))) =
     E_SlowGetLinearAllocationAreaBackground (local_heap s) object_size object_size alignment origin \<and>
   (space s = [] \<or> (\<exists>rest. space s = None # rest) \<longrightarrow>
      fst (AllocateOutsideLab object_size alignment origin s) = Retry OLD_SPACE \<and>
      black (snd (AllocateOutsideLab object_size alignment origin s)) = black s \<and>
      tl (new_events s (snd (AllocateOutsideLab object_size alignment origin s))) = []) \<and>
   (\<forall>address n rest. space s = Some (address, n) # rest \<longrightarrow>
      fst (AllocateOutsideLab object_size alignment origin s) = Success address \<and>
      black (snd (AllocateOutsideLab object_size alignment origin s)) =
        (if black_allocation s then black s \<union> {address..<address + object_size} else black s) \<and>
      tl (new_events s (snd (AllocateOutsideLab object_size alignment origin s))) =
        (if black_allocation s then [E_MarkBlackBackground address object_size] else []))"
  by (cases s rule: space_cases)
    (simp_all add: AllocateOutsideLab_def SlowGetLinearAllocationAreaBackground_def record_call_def
      MarkBlackBackground_def new_events_def Let_def)

theorem AllocateOutsideLab_exact_witness:
  "fst (AllocateOutsideLab 8192 kWordAligned kRuntime (example_state\<lparr>space := [Some (65536, 8192)]\<rparr>))
     = Success 65536 \<and>
   black (snd (AllocateOutsideLab 8192 kWordAligned kRuntime
     (example_state\<lparr>space := [Some (65536, 8192)]\<rparr>))) = {65536..<73728} \<and>
   fst (AllocateOutsideLab 8192 kWordAligned kRuntime exhausted_state) = Retry OLD_SPACE \<and>
   black (snd (AllocateOutsideLab 8192 kWordAligned kRuntime exhausted_state)) = {}"
  using AllocateOutsideLab_exact
      [of "example_state\<lparr>space := [Some (65536, 8192)]\<rparr>" 8192 kWordAligned kRuntime]
    AllocateOutsideLab_exact [of exhausted_state 8192 kWordAligned kRuntime]
  by (simp add: exhausted_state_def example_state_def)

subsection \<open>Toggling the black area of the LAB\<close>

text \<open>
  C8. \<open>MarkLinearAllocationAreaBlack\<close> and \<open>UnmarkLinearAllocationArea\<close> change nothing
  when the top of the LAB is null or equals its limit. In every state, marking and
  then unmarking leaves the LAB as it was and the mark bits outside of the range from
  top up to limit as they were; with a LAB that is held no address of that range is
  marked afterwards; and when the range was unmarked before, the mark bits are again
  what they were.
\<close>

theorem Mark_Unmark_inverse:
  "(lab_top (lab s) = kNullAddress \<or> lab_top (lab s) = lab_limit (lab s) \<longrightarrow>
      MarkLinearAllocationAreaBlack s = s \<and> UnmarkLinearAllocationArea s = s) \<and>
   lab (UnmarkLinearAllocationArea (MarkLinearAllocationAreaBlack s)) = lab s \<and>
   (lab_top (lab s) \<noteq> kNullAddress \<longrightarrow>
      black (UnmarkLinearAllocationArea (MarkLinearAllocationAreaBlack s)) \<inter>
        {lab_top (lab s)..<lab_limit (lab s)} = {}) \<and>
   (\<forall>a. a \<notin> {lab_top (lab s)..<lab_limit (lab s)} \<longrightarrow>
      (a \<in> black (UnmarkLinearAllocationArea (MarkLinearAllocationAreaBlack s)) \<longleftrightarrow> a \<in> black s)) \<and>
   (black s \<inter> {lab_top (lab s)..<lab_limit (lab s)} = {} \<longrightarrow>
      black (UnmarkLinearAllocationArea (MarkLinearAllocationAreaBlack s)) = black s)"
  by (auto simp add: MarkLinearAllocationAreaBlack_def UnmarkLinearAllocationArea_def
      CreateBlackAreaBackground_def DestroyBlackAreaBackground_def record_call_def Let_def)

theorem Mark_Unmark_inverse_witness:
  "MarkLinearAllocationAreaBlack (example_state\<lparr>lab := InvalidBuffer\<rparr>) =
     example_state\<lparr>lab := InvalidBuffer\<rparr> \<and>
   UnmarkLinearAllocationArea (example_state\<lparr>lab := InvalidBuffer\<rparr>) =
     example_state\<lparr>lab := InvalidBuffer\<rparr> \<and>
   8100 \<in> black (MarkLinearAllocationAreaBlack example_state) \<and>
   black example_state \<inter> {8000..<8192} = {} \<and>
   black (UnmarkLinearAllocationArea (MarkLinearAllocationAreaBlack example_state)) =
     black example_state"
  using Mark_Unmark_inverse [of "example_state\<lparr>lab := InvalidBuffer\<rparr>"]
    Mark_Unmark_inverse [of example_state]
  by (simp add: example_state_def InvalidBuffer_def kNullAddress_def
      MarkLinearAllocationAreaBlack_def CreateBlackAreaBackground_def record_call_def)

subsection \<open>The parked scope of the retry loop\<close>

lemma ParkedScope_unparks: "\<not> parked (snd (ParkedScope body s))"
  by (simp add: ParkedScope_def Unpark_def record_call_def split: prod.splits)

text \<open>
  C9. The calls of \<open>PerformCollectionAndAllocateAgain\<close> keep the discipline of the
  parked scope: each wait for a collection directly follows the parking of the thread
  and is directly followed by its unparking, and every other call, those of the
  \<open>Allocate\<close> attempts among them, is made by a thread that is not parked. The thread is
  parked when the scope is entered, and it is not parked when the scope is left,
  whatever the enclosed code did and returned, when an attempt ends, and when the
  function ends.
\<close>

theorem parked_only_while_waiting:
  "parked_discipline
     (new_events s (snd (PerformCollectionAndAllocateAgain K object_size alignment origin s))) \<and>
   \<not> parked (snd (PerformCollectionAndAllocateAgain K object_size alignment origin s)) \<and>
   \<not> parked (snd (attempt K object_size alignment origin s)) \<and>
   parked (Park s) \<and>
   \<not> parked (snd (ParkedScope body s)) \<and>
   \<not> parked (snd (ParkedScope RequestAndWaitForCollection s))"
proof -
  from PerformCollectionAndAllocateAgain_events [of K object_size alignment origin s] obtain es where
    1: "trace (snd (PerformCollectionAndAllocateAgain K object_size alignment origin s)) =
          trace s @ E_AllocationFailed True # es"
    and 2: "parked_discipline es"
    and 3: "\<not> parked (snd (PerformCollectionAndAllocateAgain K object_size alignment origin s))"
    by blast
  from 1 have "new_events s (snd (PerformCollectionAndAllocateAgain K object_size alignment origin s)) =
    E_AllocationFailed True # es" by (rule new_events_append)
  moreover from 2 have "parked_discipline (E_AllocationFailed True # es)"
    by (simp add: parked_discipline_def)
  moreover have "parked (Park s)" by (simp add: Park_def record_call_def)
  ultimately show ?thesis
    using 3 attempt_flags [of K object_size alignment origin s]
    by (simp add: ParkedScope_unparks)
qed

theorem parked_only_while_waiting_witness:
  "new_events exhausted_state
     (snd (PerformCollectionAndAllocateAgain example_constants 8192 kWordAligned kRuntime exhausted_state)) =
   [E_AllocationFailed True,
    E_Park, E_RequestAndWaitForCollection, E_Unpark, E_Allocate 8192 kWordAligned kRuntime,
    E_SlowGetLinearAllocationAreaBackground 1 8192 8192 kWordAligned kRuntime,
    E_Park, E_RequestAndWaitForCollection, E_Unpark, E_Allocate 8192 kWordAligned kRuntime,
    E_SlowGetLinearAllocationAreaBackground 1 8192 8192 kWordAligned kRuntime,
    E_Park, E_RequestAndWaitForCollection, E_Unpark, E_Allocate 8192 kWordAligned kRuntime,
    E_SlowGetLinearAllocationAreaBackground 1 8192 8192 kWordAligned kRuntime,
    E_FatalProcessOutOfMemory ''ConcurrentAllocator: allocation failed''] \<and>
   parked_discipline (new_events exhausted_state
     (snd (PerformCollectionAndAllocateAgain example_constants 8192 kWordAligned kRuntime exhausted_state)))"
proof -
  have "new_events exhausted_state
     (snd (PerformCollectionAndAllocateAgain example_constants 8192 kWordAligned kRuntime exhausted_state)) =
   [E_AllocationFailed True,
    E_Park, E_RequestAndWaitForCollection, E_Unpark, E_Allocate 8192 kWordAligned kRuntime,
    E_SlowGetLinearAllocationAreaBackground 1 8192 8192 kWordAligned kRuntime,
    E_Park, E_RequestAndWaitForCollection, E_Unpark, E_Allocate 8192 kWordAligned kRuntime,
    E_SlowGetLinearAllocationAreaBackground 1 8192 8192 kWordAligned kRuntime,
    E_Park, E_RequestAndWaitForCollection, E_Unpark, E_Allocate 8192 kWordAligned kRuntime,
    E_SlowGetLinearAllocationAreaBackground 1 8192 8192 kWordAligned kRuntime,
    E_FatalProcessOutOfMemory ''ConcurrentAllocator: allocation failed'']"
    by (simp add: PerformCollectionAndAllocateAgain_def loop_step loop_exit attempt_def
        Allocate_def AllocateRawAligned_def AllocateOutsideLab_def
        SlowGetLinearAllocationAreaBackground_def ParkedScope_def Park_def Unpark_def
        RequestAndWaitForCollection_def set_allocation_failed_def record_call_def new_events_def
        Let_def exhausted_state_def example_state_def example_constants_def example_fill_def)
  with parked_only_while_waiting [of exhausted_state example_constants 8192 kWordAligned kRuntime
      RequestAndWaitForCollection]
  show ?thesis by simp
qed

subsection \<open>What a replenishment leaves alone\<close>

text \<open>
  C10. When the space grants \<open>EnsureLab\<close> a slice, the only marking call that
  \<open>EnsureLab\<close> makes is the creation of the black area of the granted range, and it is
  made only with black allocation active. The mark bit of every address outside of
  the granted range is what it was before the call; in particular, when the slice
  is merged with the previous LAB, every address of the previous LAB's range from top
  up to limit keeps its mark bit.
\<close>

theorem EnsureLab_marks_only_new_slice:
  assumes "space s = Some (address, n) # rest"
  shows "filter is_marking_event (new_events s (snd (EnsureLab K origin s))) =
           (if black_allocation s then [E_CreateBlackAreaBackground address (address + n)] else []) \<and>
         (\<forall>a. a \<notin> {address..<address + n} \<longrightarrow>
            (a \<in> black (snd (EnsureLab K origin s)) \<longleftrightarrow> a \<in> black s)) \<and>
         (lab_limit (lab s) = address \<longrightarrow>
            (\<forall>a \<in> {lab_top (lab s)..<lab_limit (lab s)}.
               a \<in> black (snd (EnsureLab K origin s)) \<longleftrightarrow> a \<in> black s))"
  using assms by (auto simp add: EnsureLab_granted new_events_def)

theorem EnsureLab_marks_only_new_slice_witness:
  "space example_state = Some (8192, 4096) # [] \<and> lab_limit (lab example_state) = 8192 \<and>
   filter is_marking_event
     (new_events example_state (snd (EnsureLab example_constants kRuntime example_state))) =
     [E_CreateBlackAreaBackground 8192 12288] \<and>
   8100 \<notin> black (snd (EnsureLab example_constants kRuntime example_state))"
proof -
  have g: "space example_state = Some (8192, 4096) # []"
    by (simp add: example_state_def)
  have l: "lab (example_state) = \<lparr>lab_top = 8000, lab_limit = 8192\<rparr>"
    and b: "black_allocation example_state" and e: "black example_state = {}"
    by (simp_all add: example_state_def)
  from EnsureLab_marks_only_new_slice [OF g, of example_constants kRuntime] g
  show ?thesis by (simp add: l b e)
qed

end
